theory Spec2Isabelle
  imports Complex_Main
begin

section \<open>Python values used by \<open>psp.py\<close>\<close>

text \<open>
  Exceptions of the source are values of \<open>error\<close>; a function that can raise returns
  \<open>error + 'a\<close> with \<open>Inl\<close> the exception. Python numbers (ints and floats) are
  rationals: the floating-point rounding of \<open>float\<close> arithmetic is not modelled.
  \<open>NonFinite\<close> marks the literals \<open>inf\<close> and \<open>nan\<close>, which \<open>float()\<close> accepts
  and the rationals do not hold.
\<close>

datatype error = KeyError | ValueError | IndexError | AttributeError | TypeError | NonFinite

definition PSP_PHASES :: "string list" where
  "PSP_PHASES = [''planning'', ''design'', ''code'', ''compile'', ''test'', ''postmortem'']"

definition PSP_TIMES :: "string list" where
  "PSP_TIMES = [''plan'', ''actual'', ''interruption'', ''comments'']"

subsection \<open>Strings\<close>

definition isspace :: "char \<Rightarrow> bool" where
  "isspace c = (c \<in> set [CHR '' '', CHR 0x09, CHR 0x0A, CHR 0x0B, CHR 0x0C, CHR 0x0D])"

definition isdigit :: "char \<Rightarrow> bool" where
  "isdigit c = (c \<in> set ''0123456789'')"

definition strip :: "string \<Rightarrow> string" where
  "strip s = rev (dropWhile isspace (rev (dropWhile isspace s)))"

definition lower_char :: "char \<Rightarrow> char" where
  "lower_char c =
     (case map_of (zip ''ABCDEFGHIJKLMNOPQRSTUVWXYZ'' ''abcdefghijklmnopqrstuvwxyz'') c of
        None \<Rightarrow> c | Some l \<Rightarrow> l)"

definition lower :: "string \<Rightarrow> string" where
  "lower s = map lower_char s"

text \<open>\<open>s.split()\<close>: the maximal runs of non-whitespace characters.\<close>

fun split_ws :: "string \<Rightarrow> string \<Rightarrow> string list" where
  "split_ws acc [] = (if acc = [] then [] else [rev acc])"
| "split_ws acc (c # cs) =
     (if isspace c then (if acc = [] then split_ws [] cs else rev acc # split_ws [] cs)
      else split_ws (c # acc) cs)"

definition split :: "string \<Rightarrow> string list" where
  "split s = split_ws [] s"

definition replace_char :: "char \<Rightarrow> char \<Rightarrow> string \<Rightarrow> string" where
  "replace_char a b s = map (\<lambda>c. if c = a then b else c) s"

subsection \<open>Numbers as text\<close>

definition digit_val :: "char \<Rightarrow> nat" where
  "digit_val c = (case map_of (zip ''0123456789'' [0, 1, 2, 3, 4, 5, 6, 7, 8, 9]) c of
                    None \<Rightarrow> 0 | Some d \<Rightarrow> d)"

fun digits_val :: "nat \<Rightarrow> string \<Rightarrow> nat" where
  "digits_val acc [] = acc"
| "digits_val acc (c # cs) = digits_val (10 * acc + digit_val c) cs"

definition digit_char :: "nat \<Rightarrow> char" where
  "digit_char d = ''0123456789'' ! d"

fun str_nat :: "nat \<Rightarrow> string" where
  "str_nat n = (if n < 10 then [digit_char n] else str_nat (n div 10) @ [digit_char (n mod 10)])"

declare str_nat.simps [simp del]

definition str_int :: "int \<Rightarrow> string" where
  "str_int i = (if i < 0 then CHR ''-'' # str_nat (nat (- i)) else str_nat (nat i))"

text \<open>\<open>int(x)\<close> on a number truncates towards zero.\<close>

definition py_int :: "rat \<Rightarrow> int" where
  "py_int x = (if 0 \<le> x then \<lfloor>x\<rfloor> else \<lceil>x\<rceil>)"

text \<open>
  \<open>"%0.2f" % x\<close>: two decimals, rounded to the nearest hundredth. A value exactly half way
  between two hundredths is printed by Python from its binary approximation; the model
  rounds such a value up.
\<close>

definition pad2 :: "nat \<Rightarrow> string" where
  "pad2 n = (if n < 10 then CHR ''0'' # str_nat n else str_nat n)"

definition fmt_2f :: "rat \<Rightarrow> string" where
  "fmt_2f x =
     (let h = nat \<lfloor>\<bar>x\<bar> * 100 + 1 / 2\<rfloor>
      in (if x < 0 then ''-'' else '''') @ str_nat (h div 100) @ ''.'' @ pad2 (h mod 100))"

text \<open>\<open>"%d" % x\<close>: the number truncated to an integer, in decimal.\<close>

definition fmt_d :: "rat \<Rightarrow> string" where
  "fmt_d x = str_int (py_int x)"

text \<open>
  \<open>float(s)\<close> on a string: surrounding whitespace is dropped, then an optional sign, a
  decimal numeral with an optional fraction, and an optional exponent. Anything else raises
  \<open>ValueError\<close>.
\<close>

definition split_sign :: "string \<Rightarrow> bool \<times> string" where
  "split_sign s =
     (case s of
        [] \<Rightarrow> (False, [])
      | c # r \<Rightarrow> if c = CHR ''-'' then (True, r) else if c = CHR ''+'' then (False, r) else (False, s))"

definition float_exponent :: "string \<Rightarrow> error + int" where
  "float_exponent s =
     (case s of
        [] \<Rightarrow> Inr 0
      | c # r \<Rightarrow>
          if c = CHR ''e'' \<or> c = CHR ''E'' then
            (let (neg, ds) = split_sign r
             in if ds \<noteq> [] \<and> list_all isdigit ds
                then Inr (if neg then - int (digits_val 0 ds) else int (digits_val 0 ds))
                else Inl ValueError)
          else Inl ValueError)"

definition pow10 :: "int \<Rightarrow> rat" where
  "pow10 e = (if 0 \<le> e then 10 ^ nat e else 1 / 10 ^ nat (- e))"

definition py_float :: "string \<Rightarrow> error + rat" where
  "py_float s =
     (let (neg, u) = split_sign (strip s) in
      if lower u \<in> set [''inf'', ''infinity'', ''nan''] then Inl NonFinite
      else
        let ip = takeWhile isdigit u;
            r1 = dropWhile isdigit u;
            fp = (case r1 of [] \<Rightarrow> [] | c # r \<Rightarrow> if c = CHR ''.'' then takeWhile isdigit r else []);
            r2 = (case r1 of [] \<Rightarrow> [] | c # r \<Rightarrow> if c = CHR ''.'' then dropWhile isdigit r else r1)
        in if ip = [] \<and> fp = [] then Inl ValueError
           else case float_exponent r2 of
                  Inl e \<Rightarrow> Inl e
                | Inr ex \<Rightarrow>
                    let m = of_nat (digits_val 0 ip) + of_nat (digits_val 0 fp) / 10 ^ length fp
                    in Inr ((if neg then - m else m) * pow10 ex))"

section \<open>Time formatter and parser\<close>

text \<open>
  A \<open>for ... in (x0, x1, ...): if cond: break\<close> loop over a non-empty tuple: the loop
  variable keeps the element at which the loop broke, and the last element when it never
  broke.
\<close>

fun for_break :: "('a \<Rightarrow> bool) \<Rightarrow> 'a \<Rightarrow> 'a list \<Rightarrow> 'a" where
  "for_break brk x [] = x"
| "for_break brk x (y # ys) = (if brk x then x else for_break brk y ys)"

definition pretty_time :: "rat \<Rightarrow> string" where
  "pretty_time counter0 =
     (let counter = py_int counter0;
          (factor, unit) =
             for_break (\<lambda>(factor, unit). counter < 60 * factor)
               (1, ''s'') [(60, ''m''), (3600, ''h'')]
      in if counter mod factor \<noteq> 0
         then fmt_2f (of_int counter / of_int factor) @ '' '' @ unit
         else fmt_d (of_int counter / of_int factor) @ '' '' @ unit)"

definition parse_time :: "string \<Rightarrow> error + rat" where
  "parse_time user_input0 =
     (let user_input = lower (strip user_input0) in
      if user_input = [] then Inr 0
      else
        case (if CHR '' '' \<in> set user_input then
                (case split user_input of
                   [user_time, user_unit] \<Rightarrow> Inr (user_time, user_unit)
                 | _ \<Rightarrow> Inl ValueError)
              else if \<not> isdigit (last user_input) then
                Inr (butlast user_input, [last user_input])
              else Inr (user_input, '''')) of
          Inl e \<Rightarrow> Inl e
        | Inr (user_time0, user_unit) \<Rightarrow>
            let user_time = replace_char (CHR '','') (CHR ''.'') user_time0;
                (factor, unit) =
                   for_break (\<lambda>(factor, unit). unit = user_unit)
                     (1, ''s'') [(60, ''m''), (3600, ''h'')]
            in case py_float user_time of
                 Inl e \<Rightarrow> Inl e
               | Inr t \<Rightarrow> Inr (t * of_int factor))"

section \<open>Phase timing ledger (\<open>PlanSummaryTable\<close>)\<close>

text \<open>
  The shelf \<open>self.cells\<close> is a dictionary from phase names to dictionaries from the names
  of \<open>PSP_TIMES\<close> to values. A value is a number, or the list of interruption comments.
\<close>

datatype cell = Num rat | Comments "(string \<times> int) list"

type_synonym times = "string \<rightharpoonup> cell"
type_synonym cells = "string \<rightharpoonup> times"

text \<open>\<open>d.get(k, default)\<close>\<close>

definition dict_get :: "('k \<rightharpoonup> 'v) \<Rightarrow> 'k \<Rightarrow> 'v \<Rightarrow> 'v" where
  "dict_get d k dflt = (case d k of None \<Rightarrow> dflt | Some v \<Rightarrow> v)"

text \<open>Python truth values: \<open>None\<close> and \<open>0\<close> are false, as is the empty list.\<close>

fun truthy :: "int option \<Rightarrow> bool" where
  "truthy None = False"
| "truthy (Some d) = (d \<noteq> 0)"

fun truthy_cell :: "cell \<Rightarrow> bool" where
  "truthy_cell (Num x) = (x \<noteq> 0)"
| "truthy_cell (Comments l) = (l \<noteq> [])"

text \<open>
  \<open>self.cells.get(key_phase, {}).get(key_time, default)\<close>; \<open>GetValue\<close> and
  \<open>count\<close> read with the default \<open>0\<close>.
\<close>

definition get_cell :: "cells \<Rightarrow> string \<Rightarrow> string \<Rightarrow> cell \<Rightarrow> cell" where
  "get_cell cs key_phase key_time dflt = dict_get (dict_get cs key_phase Map.empty) key_time dflt"

definition get_time :: "cells \<Rightarrow> string \<Rightarrow> string \<Rightarrow> cell" where
  "get_time cs key_phase key_time = get_cell cs key_phase key_time (Num 0)"

text \<open>\<open>self.cells.setdefault(key_phase, {})[key_time] = value\<close>\<close>

definition setdefault_store :: "cells \<Rightarrow> string \<Rightarrow> string \<Rightarrow> cell \<Rightarrow> cells" where
  "setdefault_store cs key_phase key_time v =
     cs(key_phase \<mapsto> (dict_get cs key_phase Map.empty)(key_time \<mapsto> v))"

definition SetValue :: "nat \<Rightarrow> nat \<Rightarrow> string \<Rightarrow> cells \<Rightarrow> error + cells" where
  "SetValue row col text cs =
     (case parse_time text of
        Inl e \<Rightarrow> Inl e
      | Inr v \<Rightarrow>
          if \<not> row < length PSP_PHASES then Inl IndexError
          else if \<not> col < length PSP_TIMES then Inl IndexError
          else Inr (setdefault_store cs (PSP_PHASES ! row) (PSP_TIMES ! col) (Num v)))"

text \<open>
  \<open>count(phase, interruption)\<close> returns the percentage (\<open>None\<close> when the function falls off
  its end) and the updated shelf. \<open>PSP_PHASES.index(phase)\<close> raises \<open>ValueError\<close> for a
  name that is not a phase.
\<close>

definition PlanSummaryTable_count ::
    "string \<Rightarrow> int option \<Rightarrow> cells \<Rightarrow> error + (rat option \<times> cells)" where
  "PlanSummaryTable_count phase interruption cs =
     (let plan = get_time cs phase ''plan'';
          key_time = (if \<not> truthy interruption then ''actual'' else ''interruption'')
      in case get_time cs phase key_time of
           Comments l \<Rightarrow> Inl TypeError
         | Num v \<Rightarrow>
             let val = v + 1;
                 cs' = setdefault_store cs phase key_time (Num val)
             in if phase \<notin> set PSP_PHASES then Inl ValueError
                else if truthy_cell plan then
                  (case plan of
                     Num p \<Rightarrow> Inr (Some (val / p * 100), cs')
                   | Comments l \<Rightarrow> Inl TypeError)
                else Inr (None, cs'))"

text \<open>
  \<open>comment(phase, message, delta)\<close>: the read uses \<open>get\<close> with defaults, the write is
  \<open>self.cells[key_phase]['comments'] = comments\<close>, which raises \<open>KeyError\<close> when the shelf
  has no entry for the phase.
\<close>

definition PlanSummaryTable_comment ::
    "string \<Rightarrow> string \<Rightarrow> int \<Rightarrow> cells \<Rightarrow> error + cells" where
  "PlanSummaryTable_comment phase message delta cs =
     (case get_cell cs phase ''comments'' (Comments []) of
        Num v \<Rightarrow> Inl AttributeError
      | Comments l \<Rightarrow>
          (case cs phase of
             None \<Rightarrow> Inl KeyError
           | Some row \<Rightarrow>
               if phase \<notin> set PSP_PHASES then Inl ValueError
               else Inr (cs(phase \<mapsto> row(''comments'' \<mapsto> Comments (l @ [(message, delta)]))))))"

section \<open>Defect ledger and stopwatch (\<open>DefectListCtrl\<close>, \<open>PSPMixin\<close>)\<close>

record defect =
  number :: string
  description :: string
  date :: string
  defect_type :: string
  inject_phase :: string
  remove_phase :: string
  fix_time :: rat
  fix_defect :: string
  filename :: "string option"
  lineno :: int
  offset :: int
  uuid :: string
  checked :: bool

text \<open>
  The list control: the shelf \<open>data\<close> of records by key, the map \<open>key_map\<close> from row
  positions to keys, the number of rows and the activated row.
\<close>

record defect_list =
  data :: "string \<rightharpoonup> defect"
  key_map :: "nat \<rightharpoonup> string"
  item_count :: nat
  selecteditemindex :: "nat option"

text \<open>
  A line of the event log, without its wall-clock timestamp. The comment of a
  \<open>new_defect\<close> line is \<open>str(item)\<close>, kept here as the record itself.
\<close>

datatype log_comment = Text string | ItemRepr defect

record log_entry =
  log_uuid :: string
  log_phase :: string
  log_event :: string
  log_text :: log_comment

record psp =
  psp_event_log_file :: "log_entry list"
  timer_running :: bool
  start_enabled :: bool
  pause_enabled :: bool
  stop_enabled :: bool
  pause_toggled :: bool
  psp_phase_choice :: int
  psp_gauge :: rat
  psptimetable :: cells
  psp_defect_list :: defect_list
  psp_interruption :: "int option"

text \<open>Sequencing of calls that can raise: the first exception ends the handler.\<close>

definition try_then :: "error + 'a \<Rightarrow> ('a \<Rightarrow> error + 'b) \<Rightarrow> error + 'b" where
  "try_then m f = (case m of Inl e \<Rightarrow> Inl e | Inr x \<Rightarrow> f x)"

text \<open>
  \<open>GetCurrentSelection()\<close> of the phase choice is the selected index, negative when
  nothing is selected.
\<close>

definition GetPSPPhase :: "psp \<Rightarrow> error + string" where
  "GetPSPPhase st =
     (let phase = psp_phase_choice st
      in if phase \<ge> 0
         then (if nat phase < length PSP_PHASES then Inr (PSP_PHASES ! nat phase) else Inl IndexError)
         else Inr '''')"

definition psp_log_event :: "string \<Rightarrow> string \<Rightarrow> log_comment \<Rightarrow> psp \<Rightarrow> error + psp" where
  "psp_log_event event uid comment st =
     try_then (GetPSPPhase st) (\<lambda>phase.
       Inr (st\<lparr>psp_event_log_file := psp_event_log_file st @
              [\<lparr>log_uuid = uid, log_phase = phase, log_event = event, log_text = comment\<rparr>]\<rparr>))"

text \<open>
  \<open>AddItem\<close> stores \<open>SetItemData(index, index)\<close> for every row and rows are never moved
  or deleted, so \<open>GetItemData\<close> gives a row its own position.
\<close>

definition GetItemData :: "nat \<Rightarrow> nat" where
  "GetItemData index = index"

definition OnCheckItem :: "nat \<Rightarrow> bool \<Rightarrow> psp \<Rightarrow> error + psp" where
  "OnCheckItem index flag st =
     (let dl = psp_defect_list st; pos = GetItemData index in
      case key_map dl pos of
        None \<Rightarrow> Inl KeyError
      | Some key \<Rightarrow>
          (case data dl key of
             None \<Rightarrow> Inl KeyError
           | Some item \<Rightarrow>
               if checked item \<noteq> flag then
                 try_then
                   (if flag then
                      (if remove_phase item = '''' then
                         try_then (GetPSPPhase st) (\<lambda>phase. Inr (item\<lparr>remove_phase := phase\<rparr>))
                       else Inr item)
                    else Inr item)
                   (\<lambda>item.
                 try_then
                   (psp_log_event (if flag then ''checked_defect'' else ''unchecked_defect'')
                      key (Text '''') st)
                   (\<lambda>st.
                 Inr (st\<lparr>psp_defect_list :=
                        dl\<lparr>data := (data dl)(key \<mapsto> item\<lparr>checked := flag\<rparr>)\<rparr>\<rparr>)))
               else Inr st))"

definition OnItemActivated :: "nat \<Rightarrow> psp \<Rightarrow> error + psp" where
  "OnItemActivated index st =
     (let dl = psp_defect_list st; pos = GetItemData index in
      case key_map dl pos of
        None \<Rightarrow> Inl KeyError
      | Some key \<Rightarrow>
          (case data dl key of
             None \<Rightarrow> Inl KeyError
           | Some item \<Rightarrow>
               psp_log_event ''activate_defect'' key (Text '''')
                 (st\<lparr>psp_defect_list := dl\<lparr>selecteditemindex := Some index\<rparr>\<rparr>)))"

definition DefectListCtrl_count :: "string \<Rightarrow> psp \<Rightarrow> error + psp" where
  "DefectListCtrl_count phase st =
     (let dl = psp_defect_list st in
      case selecteditemindex dl of
        None \<Rightarrow> Inr st
      | Some index \<Rightarrow>
          (case key_map dl (GetItemData index) of
             None \<Rightarrow> Inl KeyError
           | Some key \<Rightarrow>
               (case data dl key of
                  None \<Rightarrow> Inl KeyError
                | Some item \<Rightarrow>
                    if \<not> checked item then
                      Inr (st\<lparr>psp_defect_list :=
                             dl\<lparr>data := (data dl)(key \<mapsto> item\<lparr>fix_time := fix_time item + 1\<rparr>)\<rparr>\<rparr>)
                    else Inr st)))"

text \<open>
  \<open>AddItem(item, key)\<close>: \<open>new_key\<close> is the value \<open>uuid.uuid1()\<close> gives when \<open>key\<close> is
  \<open>None\<close>. A record that is already checked has its row toggled, which calls
  \<open>OnCheckItem(index, True)\<close>. The source gives a record without \<open>_checked\<close> the value
  \<open>False\<close>; the field \<open>checked\<close> is always present here, so such a record comes with
  \<open>checked = False\<close>.
\<close>

definition AddItem :: "defect \<Rightarrow> string option \<Rightarrow> string \<Rightarrow> psp \<Rightarrow> error + psp" where
  "AddItem item0 key_opt new_key st =
     (let dl = psp_defect_list st;
          index = item_count dl;
          dl1 = dl\<lparr>item_count := index + 1\<rparr>
      in try_then
           (case key_opt of
              Some key \<Rightarrow> Inr (key, item0, st\<lparr>psp_defect_list := dl1\<rparr>)
            | None \<Rightarrow>
                (let item = item0\<lparr>uuid := new_key\<rparr> in
                 try_then
                   (psp_log_event ''new_defect'' new_key (ItemRepr item)
                      (st\<lparr>psp_defect_list := dl1\<lparr>data := (data dl1)(new_key \<mapsto> item)\<rparr>\<rparr>))
                   (\<lambda>st. Inr (new_key, item, st))))
           (\<lambda>(key, item, st).
              let dl2 = psp_defect_list st;
                  st2 = st\<lparr>psp_defect_list := dl2\<lparr>key_map := (key_map dl2)(index \<mapsto> key)\<rparr>\<rparr>
              in if checked item then OnCheckItem index True st2 else Inr st2))"

definition OnStart :: "psp \<Rightarrow> error + psp" where
  "OnStart st =
     try_then (psp_log_event ''start'' ''-'' (Text '''') (st\<lparr>timer_running := True\<rparr>)) (\<lambda>st.
       Inr (st\<lparr>start_enabled := False, pause_enabled := True, stop_enabled := True\<rparr>))"

text \<open>
  \<open>OnPause\<close>: \<open>answer\<close> is what the text-entry dialog gives, \<open>None\<close> when it is cancelled
  and the entered text when it is confirmed.
\<close>

definition OnPause :: "string option \<Rightarrow> psp \<Rightarrow> error + psp" where
  "OnPause answer st =
     (case psp_interruption st of
        Some delta \<Rightarrow>
          try_then
            (case answer of
               None \<Rightarrow> Inr st
             | Some message \<Rightarrow>
                 try_then (GetPSPPhase st) (\<lambda>phase.
                 try_then (PlanSummaryTable_comment phase message delta (psptimetable st)) (\<lambda>cs.
                 psp_log_event ''resuming'' ''-'' (Text message) (st\<lparr>psptimetable := cs\<rparr>))))
            (\<lambda>st. Inr (st\<lparr>psp_interruption := None\<rparr>))
      | None \<Rightarrow>
          psp_log_event ''pausing!'' ''-'' (Text '''') (st\<lparr>psp_interruption := Some 0\<rparr>))"

definition OnStop :: "string option \<Rightarrow> psp \<Rightarrow> error + psp" where
  "OnStop answer st =
     try_then (psp_log_event ''stop'' ''-'' (Text '''') (st\<lparr>timer_running := False\<rparr>)) (\<lambda>st.
     try_then
       (if truthy (psp_interruption st)
        then try_then (OnPause answer st) (\<lambda>st. Inr (st\<lparr>pause_toggled := False\<rparr>))
        else Inr st)
       (\<lambda>st.
     Inr (st\<lparr>start_enabled := True, pause_enabled := False, stop_enabled := False\<rparr>)))"

definition TimerHandler :: "psp \<Rightarrow> error + psp" where
  "TimerHandler st0 =
     (let st = st0\<lparr>psp_interruption := map_option (\<lambda>d. d + 1) (psp_interruption st0)\<rparr> in
      try_then (GetPSPPhase st) (\<lambda>phase.
        if phase \<noteq> '''' then
          try_then (PlanSummaryTable_count phase (psp_interruption st) (psptimetable st))
            (\<lambda>(percent, cs).
               let st1 = st\<lparr>psptimetable := cs,
                            psp_gauge := (case percent of None \<Rightarrow> 0 | Some p \<Rightarrow> p)\<rparr>
               in if \<not> truthy (psp_interruption st1) then DefectListCtrl_count phase st1
                  else Inr st1)
        else Inr st))"



text \<open>
  The state \<open>PSPMixin.__init__\<close> and \<open>CreatePSPToolbar\<close> leave: only the start tool is
  enabled, no interruption is open, and the shelves hold what they held on disk.
\<close>

definition PSPMixin_init :: "cells \<Rightarrow> defect_list \<Rightarrow> int \<Rightarrow> psp" where
  "PSPMixin_init cs dl choice =
     \<lparr>psp_event_log_file = [], timer_running = False, start_enabled = True,
      pause_enabled = False, stop_enabled = False, pause_toggled = False,
      psp_phase_choice = choice, psp_gauge = 0, psptimetable = cs,
      psp_defect_list = dl, psp_interruption = None\<rparr>"

text \<open>Sequences of calls into the extension, run until the first exception.\<close>

datatype event =
    Start | Pause "string option" | Stop "string option" | Tick
  | Check nat bool | Activate nat | Select int

fun step :: "event \<Rightarrow> psp \<Rightarrow> error + psp" where
  "step Start st = OnStart st"
| "step (Pause answer) st = OnPause answer st"
| "step (Stop answer) st = OnStop answer st"
| "step Tick st = TimerHandler st"
| "step (Check index flag) st = OnCheckItem index flag st"
| "step (Activate index) st = OnItemActivated index st"
| "step (Select choice) st = Inr (st\<lparr>psp_phase_choice := choice\<rparr>)"

fun run :: "event list \<Rightarrow> psp \<Rightarrow> error + psp" where
  "run [] st = Inr st"
| "run (e # es) st = try_then (step e st) (run es)"




text \<open>\<open>n\<close> successive calls of one operation, each on the result of the one before.\<close>

fun repeat_call :: "nat \<Rightarrow> ('s \<Rightarrow> error + 's) \<Rightarrow> 's \<Rightarrow> error + 's" where
  "repeat_call 0 f s = Inr s"
| "repeat_call (Suc n) f s = try_then (f s) (repeat_call n f)"

section \<open>Vocabulary of the properties\<close>

fun is_num :: "cell \<Rightarrow> bool" where
  "is_num (Num x) = True"
| "is_num (Comments l) = False"

fun is_comments :: "cell \<Rightarrow> bool" where
  "is_comments (Num x) = False"
| "is_comments (Comments l) = True"

text \<open>
  The activated row, if there is one, has a key and a record, as it has after
  \<open>OnItemActivated\<close>.
\<close>

definition selection_ok :: "defect_list \<Rightarrow> bool" where
  "selection_ok dl =
     (case selecteditemindex dl of
        None \<Rightarrow> True
      | Some index \<Rightarrow>
          (case key_map dl (GetItemData index) of
             None \<Rightarrow> False
           | Some key \<Rightarrow> data dl key \<noteq> None))"

text \<open>Later check and uncheck calls on one row, with any phase selected in between.\<close>

fun toggle_event :: "nat \<Rightarrow> event \<Rightarrow> bool" where
  "toggle_event index (Check i flag) = (i = index)"
| "toggle_event index (Select choice) = (choice < 6)"
| "toggle_event index e = False"

text \<open>Reading a result: a field of the state, or of one defect record, after a run.\<close>

definition observe :: "(psp \<Rightarrow> 'a) \<Rightarrow> error + psp \<Rightarrow> 'a option" where
  "observe f r = (case r of Inl e \<Rightarrow> None | Inr st \<Rightarrow> Some (f st))"

definition defect_field :: "(defect \<Rightarrow> 'a) \<Rightarrow> string \<Rightarrow> error + psp \<Rightarrow> 'a option" where
  "defect_field f key r =
     (case r of Inl e \<Rightarrow> None | Inr st \<Rightarrow> map_option f (data (psp_defect_list st) key))"

definition logged_events :: "psp \<Rightarrow> string list" where
  "logged_events st = map log_event (psp_event_log_file st)"

definition phase_comments :: "string \<Rightarrow> psp \<Rightarrow> cell" where
  "phase_comments ph st = get_cell (psptimetable st) ph ''comments'' (Comments [])"

text \<open>Example states: an empty defect log, and a log with one open defect that is activated.\<close>

definition no_defects :: defect_list where
  "no_defects = \<lparr>data = Map.empty, key_map = Map.empty, item_count = 0, selecteditemindex = None\<rparr>"

definition open_defect :: defect where
  "open_defect =
     \<lparr>number = ''1'', description = ''wrong bound'', date = ''2011-05-01'', defect_type = ''20'',
      inject_phase = ''code'', remove_phase = '''', fix_time = 0, fix_defect = '''',
      filename = None, lineno = 0, offset = 0, uuid = ''k1'', checked = False\<rparr>"

definition one_defect :: defect_list where
  "one_defect =
     \<lparr>data = [''k1'' \<mapsto> open_defect], key_map = [0 \<mapsto> ''k1''], item_count = 1,
      selecteditemindex = Some 0\<rparr>"

section \<open>Facts about the shelves\<close>

lemma get_cell_setdefault_store:
  "get_cell (setdefault_store cs ph k v) ph' k' d =
     (if ph' = ph \<and> k' = k then v else get_cell cs ph' k' d)"
  by (simp add: get_cell_def setdefault_store_def dict_get_def)


lemma length_PSP_PHASES: "length PSP_PHASES = 6"
  by (simp add: PSP_PHASES_def)

lemma phase_nonempty: "ph \<in> set PSP_PHASES \<Longrightarrow> ph \<noteq> ''''"
  by (auto simp: PSP_PHASES_def)

lemmas handler_defs = OnStart_def OnStop_def OnPause_def TimerHandler_def try_then_def
  psp_log_event_def GetPSPPhase_def PlanSummaryTable_count_def PlanSummaryTable_comment_def
  get_time_def DefectListCtrl_count_def Let_def

lemmas example_defs = PSPMixin_init_def no_defects_def one_defect_def open_defect_def
  observe_def defect_field_def logged_events_def phase_comments_def

section \<open>The time parser and formatter\<close>

text \<open>
  A plain decimal numeral \<open>ds\<close>, alone or followed by one unit character: alone, and with
  any unit character other than \<open>s\<close> and \<open>m\<close>, it is scaled by 3600.
\<close>

lemma isdigit_cases:
  assumes "isdigit c"
  obtains "c = CHR ''0''" | "c = CHR ''1''" | "c = CHR ''2''" | "c = CHR ''3''" | "c = CHR ''4''"
    | "c = CHR ''5''" | "c = CHR ''6''" | "c = CHR ''7''" | "c = CHR ''8''" | "c = CHR ''9''"
  using assms by (auto simp: isdigit_def)

lemma isdigit_facts:
  assumes "isdigit c"
  shows "\<not> isspace c" and "lower_char c = c" and "c \<noteq> CHR '' ''" and "c \<noteq> CHR '',''"
    and "c \<noteq> CHR ''-''" and "c \<noteq> CHR ''+''" and "c \<noteq> CHR ''.''"
    and "c \<noteq> CHR ''i''" and "c \<noteq> CHR ''n''"
proof -
  show "\<not> isspace c"
    using assms by (cases rule: isdigit_cases) (simp_all add: isspace_def)
  show "lower_char c = c"
    using assms by (cases rule: isdigit_cases) (simp_all add: lower_char_def)
  show "c \<noteq> CHR '' ''" "c \<noteq> CHR '',''" "c \<noteq> CHR ''-''" "c \<noteq> CHR ''+''"
    "c \<noteq> CHR ''.''" "c \<noteq> CHR ''i''" "c \<noteq> CHR ''n''"
    using assms by (cases rule: isdigit_cases; simp)+
qed

lemma digits_plain:
  assumes "list_all isdigit ds"
  shows "lower ds = ds" and "replace_char (CHR '','') (CHR ''.'') ds = ds"
    and "CHR '' '' \<notin> set ds" and "takeWhile isdigit ds = ds" and "dropWhile isdigit ds = []"
proof -
  show "lower ds = ds"
    using assms by (induction ds) (simp_all add: lower_def isdigit_facts(2))
  show "replace_char (CHR '','') (CHR ''.'') ds = ds"
    using assms by (induction ds) (simp_all add: replace_char_def isdigit_facts(4))
  show "CHR '' '' \<notin> set ds"
    using assms by (induction ds) (auto dest: isdigit_facts(3))
  show "takeWhile isdigit ds = ds"
    using assms by (induction ds) simp_all
  show "dropWhile isdigit ds = []"
    using assms by (induction ds) simp_all
qed

lemma strip_digits:
  assumes "ds \<noteq> []" and "list_all isdigit ds"
  shows "strip ds = ds"
proof -
  from assms obtain c cs where ds: "ds = c # cs" by (cases ds) auto
  with assms have "\<not> isspace c" by (simp add: isdigit_facts(1))
  then have 1: "dropWhile isspace ds = ds" by (simp add: ds)
  from assms obtain bs b where bs: "ds = bs @ [b]" by (cases ds rule: rev_cases) auto
  with assms have "\<not> isspace b" by (simp add: isdigit_facts(1))
  then have "dropWhile isspace (rev ds) = rev ds" by (simp add: bs)
  with 1 show ?thesis by (simp add: strip_def)
qed

lemma py_float_digits:
  assumes "ds \<noteq> []" and "list_all isdigit ds"
  shows "py_float ds = Inr (of_nat (digits_val 0 ds))"
proof -
  from assms obtain c cs where ds: "ds = c # cs" by (cases ds) auto
  with assms have c: "isdigit c" by simp
  have sign: "split_sign ds = (False, ds)"
    using isdigit_facts(5,6) [OF c] by (simp add: split_sign_def ds)
  have lo: "lower ds = ds" by (rule digits_plain(1) [OF assms(2)])
  have "c \<noteq> CHR ''i''" and "c \<noteq> CHR ''n''"
    by (rule isdigit_facts [OF c])+
  then have nf: "lower ds \<notin> set [''inf'', ''infinity'', ''nan'']"
    unfolding lo by (simp add: ds)
  have tw: "takeWhile isdigit ds = ds" and dw: "dropWhile isdigit ds = []"
    by (rule digits_plain [OF assms(2)])+
  show ?thesis
    using assms(1) nf
    by (simp add: py_float_def strip_digits [OF assms] sign tw dw float_exponent_def pow10_def
          Let_def)
qed

lemma parse_time_bare_number:
  assumes "ds \<noteq> []" and "list_all isdigit ds"
  shows "parse_time ds = Inr (of_nat (digits_val 0 ds) * 3600)"
proof -
  from assms obtain bs b where bs: "ds = bs @ [b]" by (cases ds rule: rev_cases) auto
  with assms have la: "isdigit (last ds)" by simp
  have ui: "lower (strip ds) = ds"
    by (simp add: strip_digits [OF assms] digits_plain(1) [OF assms(2)])
  show ?thesis
    unfolding parse_time_def ui
    using assms(1) la digits_plain(3) [OF assms(2)]
    by (simp add: digits_plain(2) [OF assms(2)] py_float_digits [OF assms])
qed

lemma parse_time_number_unit:
  assumes "ds \<noteq> []" and "list_all isdigit ds" and "\<not> isdigit u" and "\<not> isspace u"
    and "lower_char u = u"
  shows "parse_time (ds @ [u]) =
           Inr (of_nat (digits_val 0 ds) *
                (if u = CHR ''s'' then 1 else if u = CHR ''m'' then 60 else 3600))"
proof -
  from assms obtain c cs where ds: "ds = c # cs" by (cases ds) auto
  with assms have "\<not> isspace c" by (simp add: isdigit_facts(1))
  then have "dropWhile isspace (ds @ [u]) = ds @ [u]" by (simp add: ds)
  then have st: "strip (ds @ [u]) = ds @ [u]" using assms(4) by (simp add: strip_def)
  have ui: "lower (strip (ds @ [u])) = ds @ [u]"
    using assms(5) digits_plain(1) [OF assms(2)] by (simp add: st lower_def)
  have sp: "u \<noteq> CHR '' ''" using assms(4) by (auto simp: isspace_def)
  show ?thesis
    unfolding parse_time_def ui
    using assms(3) sp digits_plain(3) [OF assms(2)]
    by (simp add: digits_plain(2) [OF assms(2)] py_float_digits [OF assms(1,2)])
qed

text \<open>
  C2. \<open>parse_time\<close> gives 0 for the empty string, scales by 1, 60 and 3600 for the units
  \<open>s\<close>, \<open>m\<close> and \<open>h\<close>, and reads a decimal comma as a point. When no unit of the table
  matches (no unit, or an unknown one), the loop over the table ends without a break and
  the factor is the one of its last entry, 3600: \<open>90\<close> is read as 90 hours, not as 90
  seconds (\<open>parse_time_bare_number\<close> and \<open>parse_time_number_unit\<close> for every numeral).
\<close>

theorem parse_time_unit_factor:
  "parse_time '''' = Inr 0 \<and>
   parse_time ''5s'' = Inr 5 \<and> parse_time ''5m'' = Inr 300 \<and> parse_time ''5 h'' = Inr 18000 \<and>
   parse_time ''1,5m'' = Inr 90 \<and>
   parse_time ''90'' = Inr 324000 \<and> parse_time ''5x'' = Inr 18000 \<and>
   parse_time ''5 sec'' = Inr 18000"
  by code_simp

text \<open>
  C3. Parsing and then formatting the representative inputs: \<open>5m\<close> gives 300 and
  \<open>5 m\<close>, \<open>1.5h\<close> gives 5400 and \<open>1.50 h\<close>; \<open>90\<close> gives 324000, which is printed
  \<open>90 h\<close>, while the count 90 itself is printed \<open>1.50 m\<close>.
\<close>

theorem parse_then_pretty_examples:
  "parse_time ''5m'' = Inr 300 \<and> pretty_time 300 = ''5 m'' \<and>
   parse_time ''1.5h'' = Inr 5400 \<and> pretty_time 5400 = ''1.50 h'' \<and>
   parse_time ''90'' = Inr 324000 \<and> pretty_time 324000 = ''90 h'' \<and>
   pretty_time 90 = ''1.50 m''"
  by code_simp

section \<open>The phase timing ledger\<close>





text \<open>
  C9. \<open>comment(phase, message, delta)\<close> on a shelf with no entry for the phase raises
  \<open>KeyError\<close>, at the level of the ledger and when the pause tool is clicked twice before
  the first tick of a fresh shelf. The sibling writes of \<open>SetValue\<close> and \<open>count\<close> go through
  \<open>setdefault\<close> and create the entry.
\<close>

theorem comment_on_fresh_phase_raises:
  "PlanSummaryTable_comment ''planning'' ''phone call'' 0 Map.empty = Inl KeyError \<and>
   run [Start, Pause None, Pause (Some ''phone call'')] (PSPMixin_init Map.empty no_defects 0) =
     Inl KeyError"
  by (simp add: handler_defs example_defs get_cell_def dict_get_def PSP_PHASES_def)

lemma comment_on_known_phase:
  assumes "cs phase = Some row" and "phase \<in> set PSP_PHASES"
    and "get_cell cs phase ''comments'' (Comments []) = Comments l"
  shows "PlanSummaryTable_comment phase message delta cs =
           Inr (cs(phase \<mapsto> row(''comments'' \<mapsto> Comments (l @ [(message, delta)]))))"
  using assms by (simp add: PlanSummaryTable_comment_def)

section \<open>The defect ledger\<close>

text \<open>
  C5. With a defect record activated, \<open>DefectListCtrl.count\<close> adds exactly 1 to
  \<open>fix_time\<close> of an unchecked record and changes nothing else; on a checked record it
  changes nothing, however often it is called.
\<close>

theorem accrue_fix_time_unchecked_only:
  assumes "selecteditemindex (psp_defect_list st) = Some index"
    and "key_map (psp_defect_list st) index = Some key"
    and "data (psp_defect_list st) key = Some item"
  shows "(\<not> checked item \<longrightarrow>
            DefectListCtrl_count phase st =
              Inr (st\<lparr>psp_defect_list := (psp_defect_list st)
                     \<lparr>data := (data (psp_defect_list st))
                        (key \<mapsto> item\<lparr>fix_time := fix_time item + 1\<rparr>)\<rparr>\<rparr>)) \<and>
         (checked item \<longrightarrow> (\<forall>n. repeat_call n (DefectListCtrl_count phase) st = Inr st))"
proof (intro conjI impI allI)
  assume "\<not> checked item"
  then show "DefectListCtrl_count phase st =
      Inr (st\<lparr>psp_defect_list := (psp_defect_list st)
             \<lparr>data := (data (psp_defect_list st))
                (key \<mapsto> item\<lparr>fix_time := fix_time item + 1\<rparr>)\<rparr>\<rparr>)"
    using assms by (simp add: DefectListCtrl_count_def GetItemData_def Let_def)
next
  fix n
  assume "checked item"
  then have one: "DefectListCtrl_count phase st = Inr st"
    using assms by (simp add: DefectListCtrl_count_def GetItemData_def Let_def)
  show "repeat_call n (DefectListCtrl_count phase) st = Inr st"
    by (induction n) (simp_all add: one try_then_def)
qed

theorem accrue_fix_time_unchecked_only_witness:
  "DefectListCtrl_count ''code'' (PSPMixin_init Map.empty one_defect 2) =
     Inr (PSPMixin_init Map.empty
            (one_defect\<lparr>data := [''k1'' \<mapsto> open_defect\<lparr>fix_time := 1\<rparr>]\<rparr>) 2) \<and>
   repeat_call 5 (DefectListCtrl_count ''code'')
     (PSPMixin_init Map.empty
        (one_defect\<lparr>data := [''k1'' \<mapsto> open_defect\<lparr>checked := True\<rparr>]\<rparr>) 2) =
     Inr (PSPMixin_init Map.empty
            (one_defect\<lparr>data := [''k1'' \<mapsto> open_defect\<lparr>checked := True\<rparr>]\<rparr>) 2)"
proof -
  let ?st = "PSPMixin_init Map.empty one_defect 2"
  let ?dl = "one_defect\<lparr>data := [''k1'' \<mapsto> open_defect\<lparr>checked := True\<rparr>]\<rparr>"
  let ?sc = "PSPMixin_init Map.empty ?dl 2"
  have s: "selecteditemindex (psp_defect_list ?st) = Some 0"
    and km: "key_map (psp_defect_list ?st) 0 = Some ''k1''"
    and d: "data (psp_defect_list ?st) ''k1'' = Some open_defect"
    by (simp_all add: PSPMixin_init_def one_defect_def)
  have u: "\<not> checked open_defect" by (simp add: open_defect_def)
  have sc: "selecteditemindex (psp_defect_list ?sc) = Some 0"
    and kc: "key_map (psp_defect_list ?sc) 0 = Some ''k1''"
    and dc: "data (psp_defect_list ?sc) ''k1'' = Some (open_defect\<lparr>checked := True\<rparr>)"
    by (simp_all add: PSPMixin_init_def one_defect_def)
  have c: "checked (open_defect\<lparr>checked := True\<rparr>)" by simp
  from accrue_fix_time_unchecked_only [OF s km d, of "''code''"] u
  have one: "DefectListCtrl_count ''code'' ?st =
      Inr (?st\<lparr>psp_defect_list := (psp_defect_list ?st)
             \<lparr>data := (data (psp_defect_list ?st))
                (''k1'' \<mapsto> open_defect\<lparr>fix_time := fix_time open_defect + 1\<rparr>)\<rparr>\<rparr>)"
    by blast
  from accrue_fix_time_unchecked_only [OF sc kc dc, of "''code''"] c
  have two: "repeat_call 5 (DefectListCtrl_count ''code'') ?sc = Inr ?sc"
    by blast
  from one have "DefectListCtrl_count ''code'' ?st =
     Inr (PSPMixin_init Map.empty
            (one_defect\<lparr>data := [''k1'' \<mapsto> open_defect\<lparr>fix_time := 1\<rparr>]\<rparr>) 2)"
    by (simp add: PSPMixin_init_def one_defect_def open_defect_def)
  with two show ?thesis by simp
qed

lemma toggle_step_keeps_remove_phase:
  assumes "toggle_event index e"
    and "key_map (psp_defect_list st) index = Some key"
    and "data (psp_defect_list st) key = Some item"
    and "remove_phase item \<noteq> ''''"
    and "psp_phase_choice st < 6"
  shows "\<exists>st' item'. step e st = Inr st' \<and>
           key_map (psp_defect_list st') index = Some key \<and>
           data (psp_defect_list st') key = Some item' \<and>
           remove_phase item' = remove_phase item \<and> psp_phase_choice st' < 6"
proof (cases e)
  case (Check i f)
  then show ?thesis using assms
    by (auto simp: OnCheckItem_def handler_defs GetItemData_def length_PSP_PHASES)
next
  case (Select c)
  then show ?thesis using assms by auto
qed (use assms in auto)

lemma toggle_run_keeps_remove_phase:
  "list_all (toggle_event index) evs \<Longrightarrow>
   key_map (psp_defect_list st) index = Some key \<Longrightarrow>
   data (psp_defect_list st) key = Some item \<Longrightarrow>
   remove_phase item \<noteq> '''' \<Longrightarrow> psp_phase_choice st < 6 \<Longrightarrow>
   \<exists>st' item'. run evs st = Inr st' \<and> data (psp_defect_list st') key = Some item' \<and>
     remove_phase item' = remove_phase item"
proof (induction evs arbitrary: st item)
  case Nil
  then show ?case by simp
next
  case (Cons e evs)
  from Cons.prems(1) have e: "toggle_event index e" and es: "list_all (toggle_event index) evs"
    by simp_all
  from toggle_step_keeps_remove_phase [OF e Cons.prems(2) Cons.prems(3) Cons.prems(4) Cons.prems(5)]
  obtain st1 item1 where s1: "step e st = Inr st1"
    and k1: "key_map (psp_defect_list st1) index = Some key"
    and d1: "data (psp_defect_list st1) key = Some item1"
    and r1: "remove_phase item1 = remove_phase item" and c1: "psp_phase_choice st1 < 6"
    by blast
  from Cons.prems(4) r1 have ne: "remove_phase item1 \<noteq> ''''" by simp
  from Cons.IH [OF es k1 d1 ne c1] obtain st' item' where
    "run evs st1 = Inr st'" "data (psp_defect_list st') key = Some item'"
    "remove_phase item' = remove_phase item1"
    by blast
  then show ?case using s1 r1 by (simp add: try_then_def)
qed

text \<open>
  C4, as the code has it. On an unchecked record whose \<open>remove_phase\<close> is empty,
  \<open>OnCheckItem(index, True)\<close> stores the phase \<open>GetPSPPhase\<close> gives and marks the record
  checked. A further call with \<open>True\<close> leaves the state as it is, whatever phase is
  selected. When the stored phase is not empty (a phase was selected), every later sequence
  of check and uncheck calls on the row, with any phases selected in between, succeeds and
  leaves \<open>remove_phase\<close> as it was set.
\<close>

theorem check_sets_remove_phase:
  assumes km: "key_map (psp_defect_list st) index = Some key"
    and d: "data (psp_defect_list st) key = Some item"
    and open_item: "\<not> checked item"
    and unset: "remove_phase item = ''''"
    and ph: "GetPSPPhase st = Inr ph"
  shows "\<exists>st1. OnCheckItem index True st = Inr st1 \<and>
           defect_field remove_phase key (Inr st1) = Some ph \<and>
           defect_field checked key (Inr st1) = Some True \<and>
           (\<forall>choice. OnCheckItem index True (st1\<lparr>psp_phase_choice := choice\<rparr>) =
                        Inr (st1\<lparr>psp_phase_choice := choice\<rparr>)) \<and>
           (ph \<noteq> '''' \<longrightarrow>
              (\<forall>evs. list_all (toggle_event index) evs \<longrightarrow>
                 (\<exists>st2. run evs st1 = Inr st2 \<and>
                    defect_field remove_phase key (Inr st2) = Some ph)))"
proof -
  let ?item1 = "item\<lparr>remove_phase := ph, checked := True\<rparr>"
  let ?st1 = "st\<lparr>psp_event_log_file := psp_event_log_file st @
                  [\<lparr>log_uuid = key, log_phase = ph, log_event = ''checked_defect'',
                    log_text = Text ''''\<rparr>],
                psp_defect_list := (psp_defect_list st)
                  \<lparr>data := (data (psp_defect_list st))(key \<mapsto> ?item1)\<rparr>\<rparr>"
  have call: "OnCheckItem index True st = Inr ?st1"
    using assms by (simp add: OnCheckItem_def GetItemData_def psp_log_event_def try_then_def Let_def)
  have k1: "key_map (psp_defect_list ?st1) index = Some key" using km by simp
  have d1: "data (psp_defect_list ?st1) key = Some ?item1" by simp
  have c1: "psp_phase_choice ?st1 < 6"
    using ph by (auto simp: GetPSPPhase_def Let_def length_PSP_PHASES split: if_splits)
  have again: "OnCheckItem index True (?st1\<lparr>psp_phase_choice := choice\<rparr>) =
                 Inr (?st1\<lparr>psp_phase_choice := choice\<rparr>)" for choice
    using km by (simp add: OnCheckItem_def GetItemData_def Let_def)
  have later: "\<exists>st2. run evs ?st1 = Inr st2 \<and> defect_field remove_phase key (Inr st2) = Some ph"
    if "ph \<noteq> ''''" "list_all (toggle_event index) evs" for evs
  proof -
    have ne: "remove_phase ?item1 \<noteq> ''''" using that(1) by simp
    from toggle_run_keeps_remove_phase [OF that(2) k1 d1 ne c1]
    show ?thesis by (auto simp: defect_field_def)
  qed
  show ?thesis
    apply (rule exI [of _ ?st1])
    using call again later by (simp add: defect_field_def)
qed

theorem check_sets_remove_phase_witness:
  "defect_field remove_phase ''k1''
     (run [Check 0 True, Check 0 False, Select 3, Check 0 True]
        (PSPMixin_init Map.empty one_defect 2)) = Some ''code''"
proof -
  let ?st = "PSPMixin_init Map.empty one_defect 2"
  have km: "key_map (psp_defect_list ?st) 0 = Some ''k1''"
    by (simp add: PSPMixin_init_def one_defect_def)
  have d: "data (psp_defect_list ?st) ''k1'' = Some open_defect"
    by (simp add: PSPMixin_init_def one_defect_def)
  have u: "\<not> checked open_defect" by (simp add: open_defect_def)
  have e: "remove_phase open_defect = ''''" by (simp add: open_defect_def)
  have ph: "GetPSPPhase ?st = Inr ''code''"
    by (simp add: GetPSPPhase_def PSPMixin_init_def PSP_PHASES_def)
  from check_sets_remove_phase [OF km d u e ph] obtain st1 where
    first: "OnCheckItem 0 True ?st = Inr st1"
    and later: "\<forall>evs. list_all (toggle_event 0) evs \<longrightarrow>
                  (\<exists>st2. run evs st1 = Inr st2 \<and>
                     defect_field remove_phase ''k1'' (Inr st2) = Some ''code'')"
    by auto
  have "list_all (toggle_event 0) [Check 0 False, Select 3, Check 0 True]" by simp
  with later obtain st2 where
    "run [Check 0 False, Select 3, Check 0 True] st1 = Inr st2"
    "defect_field remove_phase ''k1'' (Inr st2) = Some ''code''"
    by blast
  moreover have "run [Check 0 True, Check 0 False, Select 3, Check 0 True] ?st =
      run [Check 0 False, Select 3, Check 0 True] st1"
    using first by (simp add: try_then_def)
  ultimately show ?thesis by simp
qed

text \<open>
  With no phase selected, the first check stores the empty phase, and a later check, after
  an uncheck, changes \<open>remove_phase\<close> to the phase selected then.
\<close>

theorem check_without_phase_counterexample:
  "defect_field remove_phase ''k1''
     (run [Check 0 True] (PSPMixin_init Map.empty one_defect (- 1))) = Some '''' \<and>
   defect_field checked ''k1''
     (run [Check 0 True] (PSPMixin_init Map.empty one_defect (- 1))) = Some True \<and>
   defect_field remove_phase ''k1''
     (run [Check 0 True, Check 0 False, Select 2, Check 0 True]
        (PSPMixin_init Map.empty one_defect (- 1))) = Some ''code''"
  by (simp add: OnCheckItem_def GetItemData_def handler_defs example_defs PSP_PHASES_def)

lemma step_keeps_defect:
  assumes "step e st = Inr st'" and "data (psp_defect_list st) key = Some item"
  shows "\<exists>item'. data (psp_defect_list st') key = Some item' \<and>
           fix_time item \<le> fix_time item' \<and> uuid item' = uuid item \<and> number item' = number item"
proof (cases e)
  case Start
  then show ?thesis using assms by (auto simp: handler_defs split: if_splits sum.splits)
next
  case (Pause a)
  then show ?thesis using assms
    by (auto simp: handler_defs split: if_splits sum.splits option.splits cell.splits)
next
  case (Stop a)
  then show ?thesis using assms
    by (auto simp: handler_defs split: if_splits sum.splits option.splits cell.splits)
next
  case Tick
  then show ?thesis using assms
    by (auto simp: handler_defs split: if_splits sum.splits option.splits cell.splits)
next
  case (Check i f)
  then show ?thesis using assms
    by (auto simp: OnCheckItem_def handler_defs split: if_splits sum.splits option.splits)
next
  case (Activate i)
  then show ?thesis using assms
    by (auto simp: OnItemActivated_def handler_defs split: if_splits sum.splits option.splits)
next
  case (Select c)
  then show ?thesis using assms by auto
qed

lemma run_keeps_defect:
  "run evs st = Inr st' \<Longrightarrow> data (psp_defect_list st) key = Some item \<Longrightarrow>
   \<exists>item'. data (psp_defect_list st') key = Some item' \<and>
     fix_time item \<le> fix_time item' \<and> uuid item' = uuid item \<and> number item' = number item"
proof (induction evs arbitrary: st item)
  case Nil
  then show ?case by simp
next
  case (Cons e evs)
  from Cons.prems(1) obtain st1 where s1: "step e st = Inr st1" and r: "run evs st1 = Inr st'"
    by (auto simp: try_then_def split: sum.splits)
  from step_keeps_defect [OF s1 Cons.prems(2)] obtain item1 where
    i1: "data (psp_defect_list st1) key = Some item1" "fix_time item \<le> fix_time item1"
        "uuid item1 = uuid item" "number item1 = number item"
    by blast
  from Cons.IH [OF r i1(1)] obtain item' where
    "data (psp_defect_list st') key = Some item'" "fix_time item1 \<le> fix_time item'"
    "uuid item' = uuid item1" "number item' = number item1"
    by blast
  with i1 show ?case by auto
qed

lemma AddItem_keeps_defect:
  assumes "AddItem new key_opt new_key st = Inr st'"
    and "data (psp_defect_list st) key = Some item"
    and "key_opt = None \<longrightarrow> new_key \<noteq> key"
  shows "\<exists>item'. data (psp_defect_list st') key = Some item' \<and>
           fix_time item \<le> fix_time item' \<and> uuid item' = uuid item \<and> number item' = number item"
  using assms
  by (cases key_opt)
     (auto simp: AddItem_def OnCheckItem_def handler_defs GetItemData_def
           split: if_splits sum.splits option.splits)

text \<open>
  C10. Along every sequence of calls (timer ticks with their fix-time accrual, check and
  uncheck, activation, start, pause, stop, phase selection) that raises nothing, a defect
  record that exists keeps its \<open>uuid\<close> and \<open>number\<close> and its \<open>fix_time\<close> does not
  decrease; the same holds when \<open>AddItem\<close> stores a new record under another key.
\<close>

theorem defect_records_kept:
  assumes "data (psp_defect_list st) key = Some item"
  shows "(\<forall>evs st'. run evs st = Inr st' \<longrightarrow>
            (\<exists>item'. data (psp_defect_list st') key = Some item' \<and>
               fix_time item \<le> fix_time item' \<and> uuid item' = uuid item \<and>
               number item' = number item)) \<and>
         (\<forall>new new_key st'. AddItem new None new_key st = Inr st' \<longrightarrow> new_key \<noteq> key \<longrightarrow>
            (\<exists>item'. data (psp_defect_list st') key = Some item' \<and>
               fix_time item \<le> fix_time item' \<and> uuid item' = uuid item \<and>
               number item' = number item))"
  using run_keeps_defect [OF _ assms] AddItem_keeps_defect [OF _ assms] by blast

theorem defect_records_kept_witness:
  "(\<exists>st'. run [Activate 0, Start, Tick, Check 0 True, Tick, Stop None]
             (PSPMixin_init Map.empty one_defect 2) = Inr st' \<and>
      (\<exists>item'. data (psp_defect_list st') ''k1'' = Some item' \<and>
         fix_time open_defect \<le> fix_time item' \<and> uuid item' = uuid open_defect \<and>
         number item' = number open_defect)) \<and>
   (\<exists>st'. AddItem open_defect None ''k2'' (PSPMixin_init Map.empty one_defect 2) = Inr st' \<and>
      (\<exists>item'. data (psp_defect_list st') ''k1'' = Some item' \<and>
         fix_time open_defect \<le> fix_time item' \<and> uuid item' = uuid open_defect \<and>
         number item' = number open_defect))"
proof -
  let ?st = "PSPMixin_init Map.empty one_defect 2"
  have d: "data (psp_defect_list ?st) ''k1'' = Some open_defect"
    by (simp add: PSPMixin_init_def one_defect_def)
  obtain st1 where r: "run [Activate 0, Start, Tick, Check 0 True, Tick, Stop None] ?st = Inr st1"
    by (simp add: OnCheckItem_def OnItemActivated_def GetItemData_def handler_defs example_defs
          PSP_PHASES_def get_cell_def dict_get_def setdefault_store_def)
  obtain st2 where a: "AddItem open_defect None ''k2'' ?st = Inr st2"
    by (simp add: AddItem_def handler_defs example_defs PSP_PHASES_def)
  have ne: "''k2'' \<noteq> ''k1''" by simp
  note inst = defect_records_kept [OF d]
  from inst r have one: "\<exists>item'. data (psp_defect_list st1) ''k1'' = Some item' \<and>
         fix_time open_defect \<le> fix_time item' \<and> uuid item' = uuid open_defect \<and>
         number item' = number open_defect"
    by blast
  from inst a ne have two: "\<exists>item'. data (psp_defect_list st2) ''k1'' = Some item' \<and>
         fix_time open_defect \<le> fix_time item' \<and> uuid item' = uuid open_defect \<and>
         number item' = number open_defect"
    by blast
  from r one a two show ?thesis by blast
qed

section \<open>The stopwatch\<close>

lemma selected_phase:
  assumes "GetPSPPhase st = Inr ph" and "ph \<noteq> ''''"
  shows "0 \<le> psp_phase_choice st" and "nat (psp_phase_choice st) < length PSP_PHASES"
    and "PSP_PHASES ! nat (psp_phase_choice st) = ph" and "ph \<in> set PSP_PHASES"
  using assms by (auto simp: GetPSPPhase_def Let_def split: if_splits)

text \<open>
  C1. With a phase selected, no interruption open and the counters of that phase at 0,
  \<open>start; tick; tick; stop\<close> leaves \<open>actual = 2\<close> and \<open>interruption = 0\<close>, and
  \<open>start; pause; tick; tick; pause; tick; stop\<close> leaves \<open>interruption = 2\<close> and
  \<open>actual = 1\<close>, whatever the dialogs answer.
\<close>

theorem stopwatch_sequences:
  assumes ph: "GetPSPPhase st = Inr ph" "ph \<noteq> ''''"
    and idle: "psp_interruption st = None"
    and plan: "is_num (get_time (psptimetable st) ph ''plan'')"
    and act: "get_time (psptimetable st) ph ''actual'' = Num 0"
    and intr: "get_time (psptimetable st) ph ''interruption'' = Num 0"
    and com: "is_comments (get_cell (psptimetable st) ph ''comments'' (Comments []))"
    and sel: "selection_ok (psp_defect_list st)"
  shows "(\<exists>st'. run [Start, Tick, Tick, Stop a] st = Inr st' \<and>
            get_time (psptimetable st') ph ''actual'' = Num 2 \<and>
            get_time (psptimetable st') ph ''interruption'' = Num 0) \<and>
         (\<exists>st'. run [Start, Pause a1, Tick, Tick, Pause a2, Tick, Stop a3] st = Inr st' \<and>
            get_time (psptimetable st') ph ''interruption'' = Num 2 \<and>
            get_time (psptimetable st') ph ''actual'' = Num 1)"
proof -
  note c = selected_phase [OF ph]
  obtain p where p: "get_cell (psptimetable st) ph ''plan'' (Num 0) = Num p"
    using plan by (cases "get_time (psptimetable st) ph ''plan''") (auto simp: get_time_def)
  obtain l where l: "get_cell (psptimetable st) ph ''comments'' (Comments []) = Comments l"
    using com by (cases "get_cell (psptimetable st) ph ''comments'' (Comments [])") auto
  have first: "\<exists>st'. run [Start, Tick, Tick, Stop a] st = Inr st' \<and>
            get_time (psptimetable st') ph ''actual'' = Num 2 \<and>
            get_time (psptimetable st') ph ''interruption'' = Num 0"
    using c ph(2) idle p act intr sel
    by (auto simp: handler_defs selection_ok_def get_cell_setdefault_store split: option.splits)
  have second: "\<exists>st'. run [Start, Pause a1, Tick, Tick, Pause a2, Tick, Stop a3] st = Inr st' \<and>
            get_time (psptimetable st') ph ''interruption'' = Num 2 \<and>
            get_time (psptimetable st') ph ''actual'' = Num 1"
  proof (cases a2)
    case None
    then show ?thesis
      using c ph(2) idle p act intr sel l
      by (auto simp: handler_defs selection_ok_def get_cell_setdefault_store split: option.splits)
  next
    case (Some m)
    then show ?thesis
      using c ph(2) idle p act intr sel l
      by (auto simp: handler_defs selection_ok_def setdefault_store_def get_cell_def dict_get_def
               split: option.splits)
  qed
  from first second show ?thesis by blast
qed

theorem stopwatch_sequences_witness:
  "(\<exists>st'. run [Start, Tick, Tick, Stop None] (PSPMixin_init Map.empty one_defect 2) = Inr st' \<and>
      get_time (psptimetable st') ''code'' ''actual'' = Num 2 \<and>
      get_time (psptimetable st') ''code'' ''interruption'' = Num 0) \<and>
   (\<exists>st'. run [Start, Pause None, Tick, Tick, Pause (Some ''phone call''), Tick, Stop None]
             (PSPMixin_init Map.empty one_defect 2) = Inr st' \<and>
      get_time (psptimetable st') ''code'' ''interruption'' = Num 2 \<and>
      get_time (psptimetable st') ''code'' ''actual'' = Num 1)"
proof -
  let ?st = "PSPMixin_init Map.empty one_defect 2"
  have ph: "GetPSPPhase ?st = Inr ''code''"
    by (simp add: GetPSPPhase_def PSPMixin_init_def PSP_PHASES_def)
  have ne: "''code'' \<noteq> ''''" by simp
  have idle: "psp_interruption ?st = None" by (simp add: PSPMixin_init_def)
  have plan: "is_num (get_time (psptimetable ?st) ''code'' ''plan'')"
    by (simp add: PSPMixin_init_def get_time_def get_cell_def dict_get_def)
  have act: "get_time (psptimetable ?st) ''code'' ''actual'' = Num 0"
    by (simp add: PSPMixin_init_def get_time_def get_cell_def dict_get_def)
  have intr: "get_time (psptimetable ?st) ''code'' ''interruption'' = Num 0"
    by (simp add: PSPMixin_init_def get_time_def get_cell_def dict_get_def)
  have com: "is_comments (get_cell (psptimetable ?st) ''code'' ''comments'' (Comments []))"
    by (simp add: PSPMixin_init_def get_cell_def dict_get_def)
  have sel: "selection_ok (psp_defect_list ?st)"
    by (simp add: PSPMixin_init_def selection_ok_def one_defect_def GetItemData_def)
  show ?thesis
    by (rule stopwatch_sequences [OF ph ne idle plan act intr com sel])
qed











end
